theory Spec2Isabelle
  imports Main "HOL-Library.Word"
begin

unbundle bit_operations_syntax

section \<open>objects/match.py: enumerations\<close>

text \<open>
  \<^verbatim>\<open>SlotStatus\<close> is a \<^verbatim>\<open>@unique IntEnum\<close>. The composite \<^verbatim>\<open>has_player\<close> is a
  member of the enumeration like the others (its value, 124, is not the value of another
  member), so the type has nine members.
\<close>

datatype SlotStatus =
    open'
  | locked
  | not_ready
  | ready
  | no_map
  | playing
  | complete
  | quit
  | has_player

text \<open>The integer behind a member (Python integers are unbounded).\<close>

fun SlotStatus_value :: "SlotStatus \<Rightarrow> int" where
  "SlotStatus_value open' = 1"
| "SlotStatus_value locked = 2"
| "SlotStatus_value not_ready = 4"
| "SlotStatus_value ready = 8"
| "SlotStatus_value no_map = 16"
| "SlotStatus_value playing = 32"
| "SlotStatus_value complete = 64"
| "SlotStatus_value quit = 128"
| "SlotStatus_value has_player = 4 OR 8 OR 16 OR 32 OR 64"

datatype Teams = neutral | blue | red

datatype MatchTypes = standard | powerplay

datatype MatchScoringTypes = score | accuracy | combo | scorev2

datatype MatchTeamTypes = head_to_head | tag_coop | team_vs | tag_team_vs

type_synonym bytes = "8 word list"

section \<open>Collaborators outside the module\<close>

text \<open>
  \<^verbatim>\<open>Player\<close>, \<^verbatim>\<open>Beatmap\<close>, \<^verbatim>\<open>Channel\<close>, \<^verbatim>\<open>glob\<close> and \<^verbatim>\<open>packets\<close> are imported by
  \<^verbatim>\<open>match.py\<close> and defined elsewhere. A player is a value of a type \<open>'p\<close> and a beatmap a
  value of a type \<open>'b\<close>, both arbitrary; \<^verbatim>\<open>==\<close> on players is equality on \<open>'p\<close>, and the
  attribute \<^verbatim>\<open>Player.id\<close> is the function \<open>player_id\<close> of the environment below.
\<close>

text \<open>
  Modelled from the spec: the class \<^verbatim>\<open>Channel\<close> (section 6, "Channel primitive"). Of a
  channel the module reads \<^verbatim>\<open>players\<close> (its subscribers) and calls \<^verbatim>\<open>enqueue\<close>; a
  channel object is truthy, as a Python object with no \<^verbatim>\<open>__bool__\<close> or \<^verbatim>\<open>__len__\<close> is.
\<close>

record 'p Channel =
  chan_name :: string
  players :: "'p list"

text \<open>
  A call \<^verbatim>\<open>chan.enqueue(data, immune)\<close> is recorded, with its arguments, in the order of
  the calls; \<^verbatim>\<open>chan.enqueue(data)\<close> leaves \<^verbatim>\<open>immune\<close> at its default, the empty sequence.
\<close>

datatype 'p call = Enqueue "'p Channel" bytes "int list"

datatype error = AttributeError | BdbQuit

section \<open>Slot\<close>

record 'p Slot =
  player :: "'p option"
  status :: SlotStatus
  team :: Teams
  mods :: int
  loaded :: bool
  skipped :: bool

definition Slot_init :: "'p Slot" where
  "Slot_init =
     \<lparr>player = None, status = open', team = neutral, mods = 0, loaded = False, skipped = False\<rparr>"

definition empty :: "'p Slot \<Rightarrow> bool" where
  "empty self = (player self = None)"

definition Slot_copy :: "'p Slot \<Rightarrow> 'p Slot \<Rightarrow> 'p Slot" where
  "Slot_copy self s =
     self\<lparr>player := player s, status := status s, team := team s, mods := mods s\<rparr>"

definition reset :: "'p Slot \<Rightarrow> 'p Slot" where
  "reset self =
     self\<lparr>player := None, status := open', team := neutral, mods := 0,
          loaded := False, skipped := False\<rparr>"

section \<open>Match\<close>

record ('p, 'b) Match =
  id' :: int
  name :: string
  passwd :: string
  host :: "'p option"
  refs' :: "'p option set"
  bmap :: "'b option"
  mods :: int
  freemods :: bool
  mode :: int
  chat :: "'p Channel option"
  slots :: "'p Slot list"
  type' :: MatchTypes
  team_type :: MatchTeamTypes
  match_scoring :: MatchScoringTypes
  in_progress :: bool
  seed :: int

definition Match_init :: "('p, 'b) Match" where
  "Match_init =
     \<lparr>id' = 0, name = [], passwd = [], host = None, refs' = {}, bmap = None,
      mods = 0, freemods = False, mode = 0, chat = None,
      slots = replicate 16 Slot_init,
      type' = standard, team_type = head_to_head, match_scoring = score,
      in_progress = False, seed = 0\<rparr>"

text \<open>
  What the module calls into, taken as parameters:
  \<^item> \<open>channels\<close> is \<^verbatim>\<open>glob.channels\<close>, a lookup by name;
  \<^item> \<open>breakpointhook\<close> is what the builtin \<^verbatim>\<open>breakpoint()\<close> does when it is called in
    a method of a match: it is given the match and gives the exception it raises, if any
    (\<^verbatim>\<open>BdbQuit\<close> when the debugger session is quit; none when the session is continued
    or the hook is disabled), and the match as it leaves it. The default hook opens the
    debugger in the frame of the caller, where a statement can assign to the fields of
    \<^verbatim>\<open>self\<close>, \<^verbatim>\<open>chat\<close> among them;
  \<^item> \<open>updateMatch\<close> and \<open>matchStart\<close> are the encoders of \<^verbatim>\<open>packets\<close>, applied to the
    match as it is at the call;
  \<^item> \<open>player_id\<close> is the attribute \<^verbatim>\<open>id\<close> of a player.
\<close>

text \<open>
  Modelled from the spec: the registry \<^verbatim>\<open>glob.channels\<close> (section 6,
  \<^verbatim>\<open>channel_by_name(name) -> Channel | absent\<close>): a lookup that gives \<open>None\<close> for a name
  it does not hold.
\<close>

record ('p, 'b) env =
  channels :: "string \<rightharpoonup> 'p Channel"
  breakpointhook :: "('p, 'b) Match \<Rightarrow> error option \<times> ('p, 'b) Match"
  updateMatch :: "('p, 'b) Match \<Rightarrow> bool \<Rightarrow> bytes"
  matchStart :: "('p, 'b) Match \<Rightarrow> bytes"
  player_id :: "'p \<Rightarrow> int"

subsection \<open>Queries\<close>

definition refs :: "('p, 'b) Match \<Rightarrow> 'p option set" where
  "refs self = {host self} \<union> refs' self"

definition contains :: "('p, 'b) Match \<Rightarrow> 'p option \<Rightarrow> bool" where
  "contains self p = (p \<in> set (map player (slots self)))"

fun get_slot_loop :: "'p option \<Rightarrow> 'p Slot list \<Rightarrow> 'p Slot option" where
  "get_slot_loop p [] = None"
| "get_slot_loop p (s # ss) = (if p = player s then Some s else get_slot_loop p ss)"

definition get_slot :: "('p, 'b) Match \<Rightarrow> 'p option \<Rightarrow> 'p Slot option" where
  "get_slot self p = get_slot_loop p (slots self)"

fun get_slot_id_loop :: "'p option \<Rightarrow> nat \<Rightarrow> 'p Slot list \<Rightarrow> nat option" where
  "get_slot_id_loop p idx [] = None"
| "get_slot_id_loop p idx (s # ss) =
     (if p = player s then Some idx else get_slot_id_loop p (Suc idx) ss)"

definition get_slot_id :: "('p, 'b) Match \<Rightarrow> 'p option \<Rightarrow> nat option" where
  "get_slot_id self p = get_slot_id_loop p 0 (slots self)"

text \<open>\<^verbatim>\<open>enumerate\<close> counts from 0; a loop that ends without \<^verbatim>\<open>return\<close> gives \<^verbatim>\<open>None\<close>.\<close>

fun get_free_loop :: "nat \<Rightarrow> 'p Slot list \<Rightarrow> nat option" where
  "get_free_loop idx [] = None"
| "get_free_loop idx (s # ss) =
     (if status s = open' then Some idx else get_free_loop (Suc idx) ss)"

definition get_free :: "('p, 'b) Match \<Rightarrow> nat option" where
  "get_free self = get_free_loop 0 (slots self)"

text \<open>
  \<^verbatim>\<open>s.status & SlotStatus.has_player\<close> is an integer, true when it is not 0. The test
  \<^verbatim>\<open>and\<close> evaluates \<^verbatim>\<open>s.player.id\<close> first and \<^verbatim>\<open>self.host.id\<close> second; each raises
  \<^verbatim>\<open>AttributeError\<close> on \<^verbatim>\<open>None\<close>.
\<close>

fun get_host_slot_loop ::
  "('p \<Rightarrow> int) \<Rightarrow> 'p option \<Rightarrow> 'p Slot list \<Rightarrow> error + 'p Slot option" where
  "get_host_slot_loop pid h [] = Inr None"
| "get_host_slot_loop pid h (s # ss) =
     (if SlotStatus_value (status s) AND SlotStatus_value has_player \<noteq> 0 then
        (case player s of
           None \<Rightarrow> Inl AttributeError
         | Some p \<Rightarrow>
             (case h of
                None \<Rightarrow> Inl AttributeError
              | Some hp \<Rightarrow>
                  if pid p = pid hp then Inr (Some s) else get_host_slot_loop pid h ss))
      else get_host_slot_loop pid h ss)"

definition get_host_slot :: "('p, 'b) env \<Rightarrow> ('p, 'b) Match \<Rightarrow> error + 'p Slot option" where
  "get_host_slot e self = get_host_slot_loop (player_id e) (host self) (slots self)"

subsection \<open>Mutation\<close>

definition Match_copy :: "('p, 'b) Match \<Rightarrow> ('p, 'b) Match \<Rightarrow> ('p, 'b) Match" where
  "Match_copy self m =
     self\<lparr>bmap := bmap m, freemods := freemods m, mode := mode m,
          team_type := team_type m, match_scoring := match_scoring m,
          mods := mods m, name := name m\<rparr>"

definition unready_players :: "('p, 'b) Match \<Rightarrow> SlotStatus \<Rightarrow> ('p, 'b) Match" where
  "unready_players self expected =
     self\<lparr>slots :=
       map (\<lambda>s. if status s = expected then s\<lparr>status := not_ready\<rparr> else s) (slots self)\<rparr>"

subsection \<open>Broadcast\<close>

text \<open>
  A broadcast operation gives the exception it raised, if any, the match as it is left,
  and the calls of \<^verbatim>\<open>Channel.enqueue\<close> it made, in order. \<^verbatim>\<open>not self.chat\<close> holds when
  \<^verbatim>\<open>chat\<close> is \<^verbatim>\<open>None\<close>. When \<^verbatim>\<open>breakpoint()\<close> returns, the next statement is run, and it
  reads \<^verbatim>\<open>self.chat\<close> again, from the match as the hook left it; \<^verbatim>\<open>enqueue_state\<close> encodes
  that match.
\<close>

definition enqueue ::
  "('p, 'b) env \<Rightarrow> ('p, 'b) Match \<Rightarrow> bytes \<Rightarrow> bool \<Rightarrow> int list
     \<Rightarrow> error option \<times> ('p, 'b) Match \<times> 'p call list" where
  "enqueue e self data lobby immune =
     (case (if chat self = None then breakpointhook e self else (None, self)) of
        (Some err, self') \<Rightarrow> (Some err, self', [])
      | (None, self') \<Rightarrow>
          (case chat self' of
             None \<Rightarrow> (Some AttributeError, self', [])
           | Some c \<Rightarrow>
               (None, self',
                Enqueue c data immune #
                (if lobby then
                   (case channels e ''#lobby'' of
                      None \<Rightarrow> []
                    | Some lchan \<Rightarrow>
                        if players lchan \<noteq> [] then [Enqueue lchan data []] else [])
                 else []))))"

definition enqueue_state ::
  "('p, 'b) env \<Rightarrow> ('p, 'b) Match \<Rightarrow> bool
     \<Rightarrow> error option \<times> ('p, 'b) Match \<times> 'p call list" where
  "enqueue_state e self lobby =
     (case (if chat self = None then breakpointhook e self else (None, self)) of
        (Some err, self') \<Rightarrow> (Some err, self', [])
      | (None, self') \<Rightarrow>
          (case chat self' of
             None \<Rightarrow> (Some AttributeError, self', [])
           | Some c \<Rightarrow>
               (None, self',
                Enqueue c (updateMatch e self' True) [] #
                (if lobby then
                   (case channels e ''#lobby'' of
                      None \<Rightarrow> []
                    | Some lchan \<Rightarrow>
                        if players lchan \<noteq> []
                        then [Enqueue lchan (updateMatch e self' False) []] else [])
                 else []))))"

subsection \<open>Starting a match\<close>

text \<open>
  The loop of \<^verbatim>\<open>start\<close> over the slots, with the list \<^verbatim>\<open>no_map\<close> of the source as
  \<open>ids\<close>. It gives the exception raised, if any, the slots as the loop left them and the
  list of ids: a slot changed before an exception stays changed.
\<close>

fun start_loop ::
  "('p \<Rightarrow> int) \<Rightarrow> 'p Slot list \<Rightarrow> int list \<Rightarrow> error option \<times> 'p Slot list \<times> int list" where
  "start_loop pid [] ids = (None, [], ids)"
| "start_loop pid (s # ss) ids =
     (if SlotStatus_value (status s) AND SlotStatus_value has_player \<noteq> 0 then
        (if status s \<noteq> no_map then
           (case start_loop pid ss ids of
              (err, ss', ids') \<Rightarrow> (err, s\<lparr>status := playing\<rparr> # ss', ids'))
         else
           (case player s of
              None \<Rightarrow> (Some AttributeError, s # ss, ids)
            | Some p \<Rightarrow>
                (case start_loop pid ss (ids @ [pid p]) of
                   (err, ss', ids') \<Rightarrow> (err, s # ss', ids'))))
      else
        (case start_loop pid ss ids of
           (err, ss', ids') \<Rightarrow> (err, s # ss', ids')))"

text \<open>
  \<^verbatim>\<open>start\<close> gives the exception raised, if any, the match as it is left, and the calls of
  \<^verbatim>\<open>Channel.enqueue\<close> made, in order.
\<close>

definition start ::
  "('p, 'b) env \<Rightarrow> ('p, 'b) Match \<Rightarrow> error option \<times> ('p, 'b) Match \<times> 'p call list" where
  "start e self =
     (case start_loop (player_id e) (slots self) [] of
        (Some err, ss, ids) \<Rightarrow> (Some err, self\<lparr>slots := ss\<rparr>, [])
      | (None, ss, ids) \<Rightarrow>
          (let self1 = self\<lparr>slots := ss, in_progress := True\<rparr> in
           (case enqueue e self1 (matchStart e self1) True ids of
              (Some err, self2, sent) \<Rightarrow> (Some err, self2, sent)
            | (None, self2, sent) \<Rightarrow>
                (case enqueue_state e self2 True of
                   (err, self3, sent') \<Rightarrow> (err, self3, sent @ sent')))))"


subsection \<open>Membership in the composite flag\<close>

text \<open>
  The test \<^verbatim>\<open>status & SlotStatus.has_player\<close> of the source, as a predicate on a status.
\<close>

definition in_has_player :: "SlotStatus \<Rightarrow> bool" where
  "in_has_player st = (SlotStatus_value st AND SlotStatus_value has_player \<noteq> 0)"

section \<open>Concrete inputs\<close>

text \<open>
  A match of 16 slots with players as natural numbers: slot 0 is locked, slot 3 holds
  player 1 (ready), slot 4 holds player 2 (no map), the others are open. The encoders of
  the example environment write \<^verbatim>\<open>in_progress\<close> first and the password only on request.
\<close>

definition ex_chat :: "nat Channel" where
  "ex_chat = \<lparr>chan_name = ''#multi_7'', players = [1, 2]\<rparr>"

definition ex_lobby :: "nat Channel" where
  "ex_lobby = \<lparr>chan_name = ''#lobby'', players = [9]\<rparr>"

definition ex_env :: "(nat, nat) env" where
  "ex_env =
     \<lparr>channels = [''#lobby'' \<mapsto> ex_lobby],
      breakpointhook = (\<lambda>m. (None, m)),
      updateMatch = (\<lambda>m send_pw.
         (if in_progress m then 1 else 0)
           # (if send_pw then map (of_nat \<circ> of_char) (passwd m) else [])),
      matchStart = (\<lambda>m. [if in_progress m then 1 else 0]),
      player_id = int\<rparr>"

definition ex_slots :: "nat Slot list" where
  "ex_slots =
     Slot_init\<lparr>status := locked\<rparr> # Slot_init # Slot_init
       # Slot_init\<lparr>player := Some 1, status := ready\<rparr>
       # Slot_init\<lparr>player := Some 2, status := no_map\<rparr>
       # replicate 11 Slot_init"

definition ex_match :: "(nat, nat) Match" where
  "ex_match =
     Match_init\<lparr>id' := 7, name := ''room'', passwd := ''pw'', host := Some 1,
                chat := Some ex_chat, slots := ex_slots\<rparr>"



text \<open>
  The same match with other slots: slot 0 holds player 1 (not ready) and slot 1 has the
  status \<^verbatim>\<open>no_map\<close> and no player.
\<close>

definition vacant_no_map_match :: "(nat, nat) Match" where
  "vacant_no_map_match =
     ex_match\<lparr>slots :=
       Slot_init\<lparr>player := Some 1, status := not_ready\<rparr>
         # Slot_init\<lparr>status := no_map\<rparr> # replicate 14 Slot_init\<rparr>"

section \<open>Properties\<close>

subsection \<open>Helper lemmas\<close>

lemma has_player_value: "SlotStatus_value has_player = 124"
  by simp

lemma in_has_player_members:
  "in_has_player st = (st \<in> {not_ready, ready, no_map, playing, complete, has_player})"
  by (cases st) (simp_all add: in_has_player_def)

lemma ex_slots_length: "length ex_slots = 16"
  by (simp add: ex_slots_def)

lemma get_free_loop_None:
  "(get_free_loop idx ss = None) = (\<forall>i<length ss. status (ss ! i) \<noteq> open')"
  by (induction ss arbitrary: idx) (auto simp: nth_Cons split: nat.splits)

lemma get_free_loop_Some:
  "(get_free_loop idx ss = Some k) =
     (idx \<le> k \<and> k - idx < length ss \<and> status (ss ! (k - idx)) = open'
      \<and> (\<forall>j<k - idx. status (ss ! j) \<noteq> open'))"
proof (induction ss arbitrary: idx)
  case Nil
  then show ?case by simp
next
  case (Cons s ss)
  show ?case
  proof (cases "status s = open'")
    case True
    then show ?thesis by (auto simp: nth_Cons split: nat.splits)
  next
    case False
    show ?thesis
    proof (cases "idx < k")
      case True
      then obtain d where d: "k - idx = Suc d" "k - Suc idx = d"
        by (metis Suc_diff_Suc)
      have "(\<forall>j<Suc d. status ((s # ss) ! j) \<noteq> open') = (\<forall>j<d. status (ss ! j) \<noteq> open')"
        using False by (auto simp: nth_Cons less_Suc_eq_0_disj split: nat.splits)
      with False True d Cons.IH [of "Suc idx"] show ?thesis
        by auto
    next
      case False2: False
      with False Cons.IH [of "Suc idx"] show ?thesis
        by (auto simp: nth_Cons split: nat.splits)
    qed
  qed
qed

lemma get_host_slot_loop_find:
  assumes "\<forall>s\<in>set ss. (player s \<noteq> None) = in_has_player (status s)"
  shows "get_host_slot_loop pid (Some h) ss =
           Inr (find (\<lambda>s. in_has_player (status s) \<and> map_option pid (player s) = Some (pid h)) ss)"
  using assms
  by (induction ss) (auto simp: in_has_player_def split: option.splits)

lemma start_loop_ok:
  assumes "\<forall>s\<in>set ss. status s = no_map \<longrightarrow> player s \<noteq> None"
  shows "start_loop pid ss ids =
           (None,
            map (\<lambda>s. if in_has_player (status s) \<and> status s \<noteq> no_map
                      then s\<lparr>status := playing\<rparr> else s) ss,
            ids @ List.map_filter
                    (\<lambda>s. if status s = no_map then map_option pid (player s) else None) ss)"
  using assms
proof (induction ss arbitrary: ids)
  case Nil
  then show ?case by simp
next
  case (Cons s ss)
  then show ?case
    by (auto simp: in_has_player_def split: option.splits)
qed

subsection \<open>Slot\<close>

text \<open>
  Claim C8. After \<^verbatim>\<open>s.copy(other)\<close> the occupant, status, team and mods of the slot are
  those of the other slot, and its flags \<^verbatim>\<open>loaded\<close> and \<^verbatim>\<open>skipped\<close> are as before.
\<close>

theorem Slot_copy_frame:
  "player (Slot_copy self s) = player s \<and> status (Slot_copy self s) = status s
   \<and> team (Slot_copy self s) = team s \<and> Slot.mods (Slot_copy self s) = Slot.mods s
   \<and> loaded (Slot_copy self s) = loaded self \<and> skipped (Slot_copy self s) = skipped self"
  by (simp add: Slot_copy_def)

subsection \<open>Queries of a match\<close>

text \<open>
  Claim C7. The authority set \<^verbatim>\<open>refs\<close> is the union of the singleton of the host and the
  referee set; the host is in it whatever the referee set holds, also when that set is
  empty.
\<close>

theorem refs_host_union:
  "refs self = {host self} \<union> refs' self \<and> host self \<in> refs self
   \<and> refs (self\<lparr>refs' := {}\<rparr>) = {host self}
   \<and> (\<forall>x. (x \<in> refs self) = (x = host self \<or> x \<in> refs' self))"
  by (simp add: refs_def)

text \<open>
  Claim C10. The membership test of a match is true exactly when the value given is the
  occupant field of some slot; for the absent participant it is true exactly when some
  slot is empty.
\<close>

theorem contains_occupant:
  "contains self p = (\<exists>s \<in> set (slots self). player s = p)
   \<and> contains self None = (\<exists>s \<in> set (slots self). empty s)"
  by (force simp: contains_def empty_def)

text \<open>
  Claim C6. \<^verbatim>\<open>get_free\<close> gives the lowest index of a slot whose status is \<^verbatim>\<open>open\<close>, and
  nothing when no slot is open; on slots that begin locked, open, open it gives 1. The
  function is total: it raises nothing.
\<close>

theorem get_free_lowest_open:
  "(get_free self = None) = (\<forall>i<length (slots self). status (slots self ! i) \<noteq> open')
   \<and> (get_free self = Some k) =
       (k < length (slots self) \<and> status (slots self ! k) = open'
        \<and> (\<forall>j<k. status (slots self ! j) \<noteq> open'))
   \<and> get_free (self\<lparr>slots := s0\<lparr>status := locked\<rparr> # s1\<lparr>status := open'\<rparr>
                                # s2\<lparr>status := open'\<rparr> # rest\<rparr>) = Some 1"
  by (simp add: get_free_def get_free_loop_None get_free_loop_Some)

theorem get_free_lowest_open_witness:
  "length (slots ex_match) = 16 \<and> get_free ex_match = Some 1
   \<and> get_free (ex_match\<lparr>slots := replicate 16 (Slot_init\<lparr>status := locked\<rparr>)\<rparr>) = None"
  using get_free_lowest_open [of ex_match 1]
    get_free_lowest_open [of "ex_match\<lparr>slots := replicate 16 (Slot_init\<lparr>status := locked\<rparr>)\<rparr>"]
  by (simp add: ex_match_def ex_slots_def Slot_init_def)

text \<open>
  Claim C9. When the host is set and every slot has an occupant exactly when its status
  is in \<^verbatim>\<open>has_player\<close>, \<^verbatim>\<open>get_host_slot\<close> raises nothing (it reads the id of no absent
  occupant or host) and gives the first slot, in index order, whose status is in
  \<^verbatim>\<open>has_player\<close> and whose occupant has the id of the host, or nothing when there is none.
\<close>

theorem get_host_slot_first:
  assumes "host self = Some h"
    and "\<forall>s\<in>set (slots self). (player s \<noteq> None) = in_has_player (status s)"
  shows "get_host_slot e self =
           Inr (find (\<lambda>s. in_has_player (status s)
                          \<and> map_option (player_id e) (player s) = Some (player_id e h))
                     (slots self))"
  using assms by (simp add: get_host_slot_def get_host_slot_loop_find)

theorem get_host_slot_first_witness:
  "host ex_match = Some 1
   \<and> get_host_slot ex_env ex_match = Inr (Some (Slot_init\<lparr>player := Some 1, status := ready\<rparr>))"
proof -
  have h: "host ex_match = Some 1"
    by (simp add: ex_match_def)
  have inv: "\<forall>s\<in>set (slots ex_match). (player s \<noteq> None) = in_has_player (status s)"
    by (simp add: ex_match_def ex_slots_def Slot_init_def in_has_player_def)
  show ?thesis
    using get_host_slot_first [OF h inv, of ex_env]
    by (simp add: ex_match_def ex_slots_def Slot_init_def in_has_player_def ex_env_def)
qed

subsection \<open>Mutation of a match\<close>

text \<open>
  Claim C4. After \<^verbatim>\<open>m.copy(other)\<close> the beatmap, freemods, mode, team type, match scoring,
  mods and name of the match are those of the other match, and its slots, host, referees,
  id, password, \<^verbatim>\<open>in_progress\<close> and seed are as before.
\<close>

theorem Match_copy_frame:
  "bmap (Match_copy self m) = bmap m \<and> freemods (Match_copy self m) = freemods m
   \<and> mode (Match_copy self m) = mode m \<and> team_type (Match_copy self m) = team_type m
   \<and> match_scoring (Match_copy self m) = match_scoring m
   \<and> Match.mods (Match_copy self m) = Match.mods m \<and> name (Match_copy self m) = name m
   \<and> slots (Match_copy self m) = slots self \<and> host (Match_copy self m) = host self
   \<and> refs' (Match_copy self m) = refs' self \<and> id' (Match_copy self m) = id' self
   \<and> passwd (Match_copy self m) = passwd self
   \<and> in_progress (Match_copy self m) = in_progress self \<and> seed (Match_copy self m) = seed self"
  by (simp add: Match_copy_def)

text \<open>
  Claim C5. \<^verbatim>\<open>unready_players(expected)\<close> sets the status \<^verbatim>\<open>not_ready\<close> on the slots whose
  status is \<^verbatim>\<open>expected\<close> and leaves every other slot, and every other field of the match,
  as it was; a second call with the same status, \<^verbatim>\<open>ready\<close> among them, changes nothing.
\<close>

theorem unready_players_exact:
  "length (slots (unready_players self expected)) = length (slots self)
   \<and> (\<forall>i<length (slots self).
         slots (unready_players self expected) ! i =
           (if status (slots self ! i) = expected
            then (slots self ! i)\<lparr>status := not_ready\<rparr> else slots self ! i))
   \<and> unready_players self expected = self\<lparr>slots := slots (unready_players self expected)\<rparr>
   \<and> unready_players (unready_players self expected) expected = unready_players self expected
   \<and> unready_players (unready_players self ready) ready = unready_players self ready"
  by (simp add: unready_players_def)

theorem unready_players_exact_witness:
  "map status (slots (unready_players ex_match ready)) =
     [locked, open', open', not_ready, no_map, open', open', open', open', open', open',
      open', open', open', open', open']
   \<and> unready_players (unready_players ex_match ready) ready = unready_players ex_match ready"
  using unready_players_exact [of ex_match ready]
  by (simp add: unready_players_def ex_match_def ex_slots_def Slot_init_def numeral_eq_Suc)

subsection \<open>Broadcast\<close>

text \<open>
  Claim C2. With the session channel set, \<^verbatim>\<open>enqueue_state\<close> raises nothing, leaves the
  match as it was and makes these calls, in this order: the encoding with the password to the session channel; then the
  encoding without the password to the channel \<^verbatim>\<open>#lobby\<close>, when \<^verbatim>\<open>lobby\<close> is true, the
  channel exists and it has players, and no call otherwise. When the encoding without the
  password does not depend on the password, two matches that differ in the password alone
  give the same calls after the first.
\<close>

theorem enqueue_state_redacts:
  assumes "chat self = Some c"
  shows "enqueue_state e self lobby =
           (None, self,
            Enqueue c (updateMatch e self True) [] #
            (case channels e ''#lobby'' of
               None \<Rightarrow> []
             | Some lchan \<Rightarrow>
                 if lobby \<and> players lchan \<noteq> []
                 then [Enqueue lchan (updateMatch e self False) []] else []))
         \<and> ((\<forall>m pw. updateMatch e (m\<lparr>passwd := pw\<rparr>) False = updateMatch e m False) \<longrightarrow>
              tl (snd (snd (enqueue_state e (self\<lparr>passwd := pw'\<rparr>) lobby)))
                = tl (snd (snd (enqueue_state e self lobby))))"
  using assms by (simp add: enqueue_state_def split: option.splits)

theorem enqueue_state_redacts_witness:
  "chat ex_match = Some ex_chat
   \<and> enqueue_state ex_env ex_match True =
       (None, ex_match, [Enqueue ex_chat [0, 112, 119] [], Enqueue ex_lobby [0] []])
   \<and> snd (snd (enqueue_state ex_env ex_match False)) = [Enqueue ex_chat [0, 112, 119] []]
   \<and> tl (snd (snd (enqueue_state ex_env (ex_match\<lparr>passwd := ''other''\<rparr>) True)))
       = tl (snd (snd (enqueue_state ex_env ex_match True)))"
proof -
  have c: "chat ex_match = Some ex_chat"
    by (simp add: ex_match_def)
  have enc: "\<forall>m pw. updateMatch ex_env (m\<lparr>passwd := pw\<rparr>) False = updateMatch ex_env m False"
    by (simp add: ex_env_def)
  show ?thesis
    using enqueue_state_redacts [OF c, of ex_env True "''other''"]
      enqueue_state_redacts [OF c, of ex_env False "''other''"] enc
    by (simp add: ex_match_def ex_env_def ex_lobby_def Match_init_def)
qed




subsection \<open>Starting a match\<close>

text \<open>
  Claim C1, as stated for every match whose session channel is set, fails on a match with
  a slot of status \<^verbatim>\<open>no_map\<close> and no occupant: the loop raises \<^verbatim>\<open>AttributeError\<close> at that
  slot, after the slots before it were started, and \<^verbatim>\<open>in_progress\<close> is not set and nothing
  is broadcast.
\<close>

theorem start_vacant_no_map_raises:
  "chat vacant_no_map_match = Some ex_chat
   \<and> start ex_env vacant_no_map_match =
       (Some AttributeError,
        vacant_no_map_match\<lparr>slots :=
          Slot_init\<lparr>player := Some 1, status := playing\<rparr>
            # Slot_init\<lparr>status := no_map\<rparr> # replicate 14 Slot_init\<rparr>,
        [])
   \<and> \<not> in_progress (fst (snd (start ex_env vacant_no_map_match)))"
  by (simp add: start_def vacant_no_map_match_def ex_match_def ex_env_def Slot_init_def
      Match_init_def)

text \<open>
  Claim C1, amended. With the session channel set and an occupant in every slot of status
  \<^verbatim>\<open>no_map\<close>, \<^verbatim>\<open>start\<close> raises nothing and: every slot whose status is in \<^verbatim>\<open>has_player\<close> and
  is not \<^verbatim>\<open>no_map\<close> gets the status \<^verbatim>\<open>playing\<close>; every other slot is unchanged (the statuses
  \<^verbatim>\<open>open\<close>, \<^verbatim>\<open>locked\<close> and \<^verbatim>\<open>quit\<close> are not in \<^verbatim>\<open>has_player\<close>); the ids of the occupants of
  the \<^verbatim>\<open>no_map\<close> slots, in slot order, are the immune list; \<^verbatim>\<open>in_progress\<close> is true in the
  match that the encoders are given; and the calls are, in order, the start signal to the
  session channel with that immune list, the start signal to \<^verbatim>\<open>#lobby\<close> when it exists and
  has players, the state with the password to the session channel, and the state without
  it to \<^verbatim>\<open>#lobby\<close> when it exists and has players.
\<close>

theorem start_effects:
  assumes "chat self = Some c"
    and "\<forall>s\<in>set (slots self). status s = no_map \<longrightarrow> player s \<noteq> None"
  shows "start e self =
          (let self1 = self\<lparr>slots :=
                              map (\<lambda>s. if in_has_player (status s) \<and> status s \<noteq> no_map
                                        then s\<lparr>status := playing\<rparr> else s) (slots self),
                            in_progress := True\<rparr>;
               ids = List.map_filter
                       (\<lambda>s. if status s = no_map then map_option (player_id e) (player s) else None)
                       (slots self);
               to_lobby = (\<lambda>data. case channels e ''#lobby'' of
                                      None \<Rightarrow> []
                                    | Some lchan \<Rightarrow>
                                        if players lchan \<noteq> [] then [Enqueue lchan data []] else [])
           in (None, self1,
               Enqueue c (matchStart e self1) ids # to_lobby (matchStart e self1)
               @ Enqueue c (updateMatch e self1 True) [] # to_lobby (updateMatch e self1 False)))
         \<and> in_progress (fst (snd (start e self)))
         \<and> \<not> in_has_player open' \<and> \<not> in_has_player locked \<and> \<not> in_has_player quit"
  using assms
  by (simp add: start_def start_loop_ok enqueue_def enqueue_state_def Let_def
      in_has_player_members split: option.splits)

theorem start_effects_witness:
  "chat ex_match = Some ex_chat
   \<and> fst (start ex_env ex_match) = None
   \<and> map status (slots (fst (snd (start ex_env ex_match)))) =
       [locked, open', open', playing, no_map, open', open', open', open', open', open',
        open', open', open', open', open']
   \<and> in_progress (fst (snd (start ex_env ex_match)))
   \<and> snd (snd (start ex_env ex_match)) =
       [Enqueue ex_chat [1] [2], Enqueue ex_lobby [1] [],
        Enqueue ex_chat [1, 112, 119] [], Enqueue ex_lobby [1] []]"
proof -
  have c: "chat ex_match = Some ex_chat"
    by (simp add: ex_match_def)
  have occ: "\<forall>s\<in>set (slots ex_match). status s = no_map \<longrightarrow> player s \<noteq> None"
    by (simp add: ex_match_def ex_slots_def Slot_init_def)
  show ?thesis
    using start_effects [OF c occ, of ex_env]
    by (simp add: ex_match_def ex_slots_def ex_env_def ex_lobby_def Slot_init_def
        Match_init_def in_has_player_def Let_def numeral_eq_Suc)
qed

end
